theory Spec2Isabelle
  imports Complex_Main "HOL-Library.Char_ord" "HOL-Library.List_Lexorder"
begin

section \<open>EasyADSB flight logger: the store, the sweeper and the settings API\<close>

text \<open>
  The development embeds \<^verbatim>\<open>src/logger/app.py\<close>. The logger keeps one SQLite table
  \<^verbatim>\<open>positions\<close>, a handful of module globals and two JSON documents on disk. Python
  values decoded from JSON are modelled by the datatype \<open>json\<close>; every exception the
  source can raise on such values is a branch \<open>Inl\<close> of a sum. Strings are ASCII
  \<open>string\<close>s and are ordered bytewise (the order of SQLite's BINARY collation), which
  is the order \<open>HOL-Library.List_Lexorder\<close> puts on \<open>char list\<close>.
\<close>

subsection \<open>Python values\<close>

datatype json =
    JNull
  | JBool bool
  | JInt int
  | JFloat real
  | JStr string
  | JArr "json list"
  | JObj "(string \<times> json) list"

text \<open>\<open>JFloat r\<close> is a finite Python float of value \<open>r\<close>. A dict is an association list;
  the first binding of a key is the one in force.\<close>

type_synonym dict = "(string \<times> json) list"

datatype error =
    AttributeError
  | TypeError
  | ValueError
  | OverflowError
  | BindingError
  | OperationalError

text \<open>\<open>BindingError\<close> is what \<^verbatim>\<open>sqlite3\<close> raises for a parameter of an unsupported
  type (\<^verbatim>\<open>InterfaceError\<close>, from Python 3.11 on \<^verbatim>\<open>ProgrammingError\<close>);
  \<open>OperationalError\<close> is the engine refusing a statement.\<close>

definition and_then :: "error + 'a \<Rightarrow> ('a \<Rightarrow> error + 'b) \<Rightarrow> error + 'b" where
  "and_then r f = (case r of Inl e \<Rightarrow> Inl e | Inr x \<Rightarrow> f x)"

text \<open>Truth value testing (\<^verbatim>\<open>if x\<close>, \<^verbatim>\<open>x or y\<close>): \<^verbatim>\<open>None\<close>, \<^verbatim>\<open>False\<close>, zero and
  every empty container are false.\<close>

fun py_truthy :: "json \<Rightarrow> bool" where
  "py_truthy JNull = False"
| "py_truthy (JBool b) = b"
| "py_truthy (JInt i) = (i \<noteq> 0)"
| "py_truthy (JFloat r) = (r \<noteq> 0)"
| "py_truthy (JStr s) = (s \<noteq> [])"
| "py_truthy (JArr xs) = (xs \<noteq> [])"
| "py_truthy (JObj kvs) = (kvs \<noteq> [])"

definition py_or :: "json \<Rightarrow> json \<Rightarrow> json" where
  "py_or a b = (if py_truthy a then a else b)"

text \<open>\<^verbatim>\<open>d.get(k)\<close> and \<^verbatim>\<open>d.get(k, default)\<close>.\<close>

definition dict_get :: "dict \<Rightarrow> string \<Rightarrow> json \<Rightarrow> json" where
  "dict_get d k dflt = (case map_of d k of None \<Rightarrow> dflt | Some v \<Rightarrow> v)"

definition dict_has :: "dict \<Rightarrow> string \<Rightarrow> bool" where
  "dict_has d k = (map_of d k \<noteq> None)"

definition upper_char :: "char \<Rightarrow> char" where
  "upper_char c =
     (let n = (of_char c :: nat) in if 97 \<le> n \<and> n \<le> 122 then char_of (n - 32) else c)"

definition str_upper :: "string \<Rightarrow> string" where
  "str_upper s = map upper_char s"

definition is_space :: "char \<Rightarrow> bool" where
  "is_space c =
     (let n = (of_char c :: nat) in (9 \<le> n \<and> n \<le> 13) \<or> (28 \<le> n \<and> n \<le> 32))"

definition str_strip :: "string \<Rightarrow> string" where
  "str_strip s = rev (dropWhile is_space (rev (dropWhile is_space s)))"

text \<open>\<^verbatim>\<open>x.upper()\<close> and \<^verbatim>\<open>x.strip()\<close> exist on \<^verbatim>\<open>str\<close> only.\<close>

fun py_upper :: "json \<Rightarrow> error + json" where
  "py_upper (JStr s) = Inr (JStr (str_upper s))"
| "py_upper _ = Inl AttributeError"

fun py_strip :: "json \<Rightarrow> error + json" where
  "py_strip (JStr s) = Inr (JStr (str_strip s))"
| "py_strip _ = Inl AttributeError"

text \<open>\<^verbatim>\<open>int(x)\<close>: a float is truncated towards zero, a string is parsed. Strings are
  ASCII here; on an ASCII string \<^verbatim>\<open>int\<close> skips the white space of C's \<^verbatim>\<open>isspace\<close>
  (codes 9 to 13 and 32, a smaller set than the one \<^verbatim>\<open>str.strip\<close> removes) on both
  sides, then takes an optional sign and decimal digits with single underscores between
  them, and refuses more than 4300 digits (the default of
  \<^verbatim>\<open>sys.set_int_max_str_digits\<close>). SQLite skips the same white space around a number.\<close>

definition c_isspace :: "char \<Rightarrow> bool" where
  "c_isspace c = (let n = (of_char c :: nat) in (9 \<le> n \<and> n \<le> 13) \<or> n = 32)"

definition is_digit :: "char \<Rightarrow> bool" where
  "is_digit c = (let n = (of_char c :: nat) in 48 \<le> n \<and> n \<le> 57)"

fun digits_ok :: "string \<Rightarrow> bool" where
  "digits_ok [] = False"
| "digits_ok [c] = is_digit c"
| "digits_ok (c # d # cs) =
     (is_digit c \<and> (if d = CHR ''_'' then cs \<noteq> [] \<and> digits_ok cs else digits_ok (d # cs)))"

definition digits_value :: "string \<Rightarrow> nat" where
  "digits_value cs = foldl (\<lambda>acc c. acc * 10 + (of_char c - 48)) 0 (filter is_digit cs)"

definition str_to_int :: "string \<Rightarrow> error + int" where
  "str_to_int s =
     (let t = rev (dropWhile c_isspace (rev (dropWhile c_isspace s)));
          neg = (t \<noteq> [] \<and> hd t = CHR ''-'');
          body = (if t \<noteq> [] \<and> (hd t = CHR ''-'' \<or> hd t = CHR ''+'') then tl t else t)
      in if digits_ok body \<and> length (filter is_digit body) \<le> 4300
         then Inr (if neg then - int (digits_value body) else int (digits_value body))
         else Inl ValueError)"

fun py_int :: "json \<Rightarrow> error + int" where
  "py_int (JInt i) = Inr i"
| "py_int (JBool b) = Inr (if b then 1 else 0)"
| "py_int (JFloat r) = Inr (if r \<ge> 0 then \<lfloor>r\<rfloor> else \<lceil>r\<rceil>)"
| "py_int (JStr s) = str_to_int s"
| "py_int _ = Inl TypeError"

subsection \<open>The positions table\<close>

datatype sqlval = SNull | SInt int | SReal real | SText string

text \<open>How \<^verbatim>\<open>sqlite3\<close> binds a Python value to a \<^verbatim>\<open>?\<close>: \<^verbatim>\<open>None\<close> is NULL, a
  \<^verbatim>\<open>bool\<close> is the integer 0 or 1, an \<^verbatim>\<open>int\<close> must fit 64 bits, lists and dicts are
  refused. The storage-class coercion SQLite then applies by column affinity belongs to
  the engine and is not modelled: a row holds the values as bound. So an integer bound
  to the REAL column \<^verbatim>\<open>lat\<close> appears here as that integer where the engine keeps the
  float of the same value, an integral float bound to an INTEGER column appears as the
  float where the engine keeps the integer, and a number bound to a TEXT column appears
  as the number where the engine keeps its decimal text. Whether a row is stored, and a
  text bound to a TEXT column or an integer bound to an INTEGER column, are the same in
  both. The sample tables below hold every value in the storage class of its column.\<close>

fun adapt :: "json \<Rightarrow> error + sqlval" where
  "adapt JNull = Inr SNull"
| "adapt (JBool b) = Inr (SInt (if b then 1 else 0))"
| "adapt (JInt i) =
     (if - (2 ^ 63) \<le> i \<and> i < 2 ^ 63 then Inr (SInt i) else Inl OverflowError)"
| "adapt (JFloat r) = Inr (SReal r)"
| "adapt (JStr s) = Inr (SText s)"
| "adapt (JArr xs) = Inl BindingError"
| "adapt (JObj kvs) = Inl BindingError"

record row =
  rowid :: nat
  timestamp :: string
  icao :: sqlval
  callsign :: sqlval
  lat :: sqlval
  lon :: sqlval
  altitude :: sqlval
  speed :: sqlval
  track :: sqlval
  vert_rate :: sqlval
  squawk :: sqlval
  category :: sqlval
  aircraft_type :: sqlval
  rssi :: sqlval

datatype doc_file = Missing | Malformed | Doc json

record state =
  positions :: "row list"
  next_id :: nat
  LOG_INTERVAL :: int
  LOG_RETENTION_DAYS :: int
  logger_paused :: bool
  total_logged :: nat
  config_file :: doc_file
  user_config_file :: doc_file

text \<open>\<open>positions\<close> is the committed table in rowid order and \<open>next_id\<close> the next
  AUTOINCREMENT key. The globals \<^verbatim>\<open>LOG_INTERVAL\<close> and \<^verbatim>\<open>LOG_RETENTION_DAYS\<close> are the
  integers that \<^verbatim>\<open>int(os.getenv(...))\<close> and \<^verbatim>\<open>api_settings\<close> assign.\<close>

text \<open>A connection of \<^verbatim>\<open>get_db()\<close>. With the module's default isolation level an
  INSERT or DELETE opens a transaction implicitly, nothing else does, and nothing is
  committed implicitly; SQLite refuses VACUUM inside a transaction. A connection dropped
  by an exception loses its uncommitted work.\<close>

record conn =
  rows :: "row list"
  seq :: nat
  in_txn :: bool

definition get_db :: "state \<Rightarrow> conn" where
  "get_db s = \<lparr>rows = positions s, seq = next_id s, in_txn = False\<rparr>"

definition execute_insert :: "row \<Rightarrow> conn \<Rightarrow> conn" where
  "execute_insert r c = c\<lparr>rows := rows c @ [r], seq := Suc (seq c), in_txn := True\<rparr>"

definition execute_delete :: "(row \<Rightarrow> bool) \<Rightarrow> conn \<Rightarrow> conn" where
  "execute_delete p c = c\<lparr>rows := filter (\<lambda>r. \<not> p r) (rows c), in_txn := True\<rparr>"

definition execute_vacuum :: "conn \<Rightarrow> error + conn" where
  "execute_vacuum c = (if in_txn c then Inl OperationalError else Inr c)"

definition commit :: "conn \<Rightarrow> state \<Rightarrow> conn \<times> state" where
  "commit c s = (c\<lparr>in_txn := False\<rparr>, s\<lparr>positions := rows c, next_id := seq c\<rparr>)"

subsection \<open>Comparing the timestamp column with a bound parameter\<close>

text \<open>The column \<^verbatim>\<open>timestamp\<close> is declared \<^verbatim>\<open>DATETIME\<close> and so has NUMERIC affinity; its
  values are the texts \<^verbatim>\<open>CURRENT_TIMESTAMP\<close> wrote. In a comparison of the column with
  a text parameter, SQLite applies the affinity to the parameter: a text that reads as
  an integer or real literal (white space around it allowed, no hexadecimal) becomes a
  number, and a number sorts below every text. Any other text is compared with the
  stored text byte by byte (collation BINARY).\<close>

definition skip_sign :: "string \<Rightarrow> string" where
  "skip_sign s = (if s \<noteq> [] \<and> (hd s = CHR ''-'' \<or> hd s = CHR ''+'') then tl s else s)"

definition numeric_looking :: "string \<Rightarrow> bool" where
  "numeric_looking s =
     (let t = skip_sign (dropWhile c_isspace s);
          int_part = takeWhile is_digit t;
          t1 = dropWhile is_digit t;
          has_point = (t1 \<noteq> [] \<and> hd t1 = CHR ''.'');
          frac_part = (if has_point then takeWhile is_digit (tl t1) else []);
          t2 = (if has_point then dropWhile is_digit (tl t1) else t1);
          has_exp = (t2 \<noteq> [] \<and> (hd t2 = CHR ''e'' \<or> hd t2 = CHR ''E''));
          exp_part = (if has_exp then takeWhile is_digit (skip_sign (tl t2)) else []);
          t3 = (if has_exp then dropWhile is_digit (skip_sign (tl t2)) else t2)
      in (int_part \<noteq> [] \<or> frac_part \<noteq> [])
         \<and> (if has_exp then exp_part \<noteq> [] else True)
         \<and> dropWhile c_isspace t3 = [])"

text \<open>\<^verbatim>\<open>timestamp >= ?\<close>, \<^verbatim>\<open>timestamp <= ?\<close> and \<^verbatim>\<open>timestamp < ?\<close> for a stored text
  \<open>ts\<close> and a text parameter \<open>a\<close>.\<close>

definition timestamp_ge :: "string \<Rightarrow> string \<Rightarrow> bool" where
  "timestamp_ge ts a = (if numeric_looking a then True else a \<le> ts)"

definition timestamp_le :: "string \<Rightarrow> string \<Rightarrow> bool" where
  "timestamp_le ts a = (if numeric_looking a then False else ts \<le> a)"

definition timestamp_lt :: "string \<Rightarrow> string \<Rightarrow> bool" where
  "timestamp_lt ts a = (if numeric_looking a then False else ts < a)"

subsection \<open>save_aircraft\<close>

text \<open>The parameter tuple of the INSERT is built left to right, then bound left to
  right; \<open>n\<close> is the new rowid and \<open>ts\<close> the CURRENT_TIMESTAMP default.\<close>

definition positions_row :: "nat \<Rightarrow> string \<Rightarrow> dict \<Rightarrow> error + row" where
  "positions_row n ts ac =
     and_then (py_upper (dict_get ac ''hex'' (JStr ''''))) (\<lambda>hex.
     and_then (if py_truthy (dict_get ac ''flight'' JNull)
               then py_strip (dict_get ac ''flight'' (JStr '''')) else Inr JNull) (\<lambda>flight.
     and_then (adapt hex) (\<lambda>p1.
     and_then (adapt flight) (\<lambda>p2.
     and_then (adapt (dict_get ac ''lat'' JNull)) (\<lambda>p3.
     and_then (adapt (dict_get ac ''lon'' JNull)) (\<lambda>p4.
     and_then (adapt (py_or (dict_get ac ''alt_baro'' JNull) (dict_get ac ''alt_geom'' JNull))) (\<lambda>p5.
     and_then (adapt (dict_get ac ''gs'' JNull)) (\<lambda>p6.
     and_then (adapt (dict_get ac ''track'' JNull)) (\<lambda>p7.
     and_then (adapt (py_or (dict_get ac ''baro_rate'' JNull) (dict_get ac ''geom_rate'' JNull))) (\<lambda>p8.
     and_then (adapt (dict_get ac ''squawk'' JNull)) (\<lambda>p9.
     and_then (adapt (dict_get ac ''category'' JNull)) (\<lambda>p10.
     and_then (adapt (dict_get ac ''t'' JNull)) (\<lambda>p11.
     and_then (adapt (dict_get ac ''rssi'' JNull)) (\<lambda>p12.
       Inr \<lparr>rowid = n, timestamp = ts, icao = p1, callsign = p2, lat = p3, lon = p4,
            altitude = p5, speed = p6, track = p7, vert_rate = p8, squawk = p9,
            category = p10, aircraft_type = p11, rssi = p12\<rparr>))))))))))))))"

definition has_position :: "dict \<Rightarrow> bool" where
  "has_position ac = (\<not> (\<not> dict_has ac ''lat'' \<or> \<not> dict_has ac ''lon''))"

text \<open>The loop of \<^verbatim>\<open>save_aircraft\<close>; \<open>clock n\<close> is the CURRENT_TIMESTAMP the engine
  reads when it inserts rowid \<open>n\<close>.\<close>

fun insert_all :: "(nat \<Rightarrow> string) \<Rightarrow> conn \<Rightarrow> nat \<Rightarrow> dict list \<Rightarrow> error + (conn \<times> nat)" where
  "insert_all clock c count [] = Inr (c, count)"
| "insert_all clock c count (ac # rest) =
     (if \<not> has_position ac then insert_all clock c count rest
      else case positions_row (seq c) (clock (seq c)) ac of
             Inl e \<Rightarrow> Inl e
           | Inr r \<Rightarrow> insert_all clock (execute_insert r c) (count + 1) rest)"

definition save_aircraft :: "(nat \<Rightarrow> string) \<Rightarrow> state \<Rightarrow> dict list \<Rightarrow> (error + nat) \<times> state" where
  "save_aircraft clock s aircraft_list =
     (if aircraft_list = [] then (Inr 0, s)
      else case insert_all clock (get_db s) 0 aircraft_list of
             Inl e \<Rightarrow> (Inl e, s)
           | Inr (c, count) \<Rightarrow>
               (Inr count, (snd (commit c s))\<lparr>total_logged := total_logged s + count\<rparr>))"

subsection \<open>Wall-clock time\<close>

text \<open>A \<^verbatim>\<open>datetime\<close> and the part of the \<^verbatim>\<open>datetime\<close> module the logger calls:
  \<^verbatim>\<open>isoformat(sep)\<close> (the \<^verbatim>\<open>sqlite3\<close> adapter of a datetime parameter is
  \<^verbatim>\<open>isoformat(" ")\<close>) and the subtraction of a \<^verbatim>\<open>timedelta\<close>, which goes through the
  proleptic Gregorian ordinal of the date and raises \<^verbatim>\<open>OverflowError\<close> before year 1.\<close>

record datetime =
  year :: nat
  month :: nat
  day :: nat
  hour :: nat
  minute :: nat
  second :: nat
  microsecond :: nat

definition digit_char :: "nat \<Rightarrow> char" where
  "digit_char n = char_of (48 + n)"

fun zero_pad :: "nat \<Rightarrow> nat \<Rightarrow> string" where
  "zero_pad 0 n = []"
| "zero_pad (Suc w) n = zero_pad w (n div 10) @ [digit_char (n mod 10)]"

definition isoformat :: "char \<Rightarrow> datetime \<Rightarrow> string" where
  "isoformat sep d =
     zero_pad 4 (year d) @ ''-'' @ zero_pad 2 (month d) @ ''-'' @ zero_pad 2 (day d) @ [sep] @
     zero_pad 2 (hour d) @ '':'' @ zero_pad 2 (minute d) @ '':'' @ zero_pad 2 (second d) @
     (if microsecond d = 0 then [] else ''.'' @ zero_pad 6 (microsecond d))"

definition is_leap :: "nat \<Rightarrow> bool" where
  "is_leap y = (y mod 4 = 0 \<and> (y mod 100 \<noteq> 0 \<or> y mod 400 = 0))"

definition DAYS_IN_MONTH :: "nat list" where
  "DAYS_IN_MONTH = [0, 31, 28, 31, 30, 31, 30, 31, 31, 30, 31, 30, 31]"

definition DAYS_BEFORE_MONTH :: "nat list" where
  "DAYS_BEFORE_MONTH = [0, 0, 31, 59, 90, 120, 151, 181, 212, 243, 273, 304, 334]"

definition days_in_month :: "nat \<Rightarrow> nat \<Rightarrow> nat" where
  "days_in_month y m = (if m = 2 \<and> is_leap y then 29 else DAYS_IN_MONTH ! m)"

definition days_before_year :: "nat \<Rightarrow> nat" where
  "days_before_year y = (let y1 = y - 1 in y1 * 365 + y1 div 4 - y1 div 100 + y1 div 400)"

definition days_before_month :: "nat \<Rightarrow> nat \<Rightarrow> nat" where
  "days_before_month y m = DAYS_BEFORE_MONTH ! m + (if m > 2 \<and> is_leap y then 1 else 0)"

definition ymd2ord :: "nat \<Rightarrow> nat \<Rightarrow> nat \<Rightarrow> nat" where
  "ymd2ord y m d = days_before_year y + days_before_month y m + d"

definition ord2ymd :: "nat \<Rightarrow> nat \<times> nat \<times> nat" where
  "ord2ymd ordinal =
     (let n0 = ordinal - 1;
          n400 = n0 div 146097; r400 = n0 mod 146097;
          n100 = r400 div 36524; r100 = r400 mod 36524;
          n4 = r100 div 1461; r4 = r100 mod 1461;
          n1 = r4 div 365; n = r4 mod 365;
          y = n400 * 400 + 1 + n100 * 100 + n4 * 4 + n1
      in if n1 = 4 \<or> n100 = 4 then (y - 1, 12, 31)
         else
           let leapyear = (n1 = 3 \<and> (n4 \<noteq> 24 \<or> n100 = 3));
               m = (n + 50) div 32;
               preceding = DAYS_BEFORE_MONTH ! m + (if m > 2 \<and> leapyear then 1 else 0)
           in if preceding > n
              then let m' = m - 1;
                       preceding' = preceding - (DAYS_IN_MONTH ! m' + (if m' = 2 \<and> leapyear then 1 else 0))
                   in (y, m', n - preceding' + 1)
              else (y, m, n - preceding + 1))"

text \<open>\<open>dt_minus d days secs\<close> is \<^verbatim>\<open>d - timedelta(days=days, seconds=secs)\<close> for
  \<open>secs < 86400\<close>; the microsecond is kept.\<close>

definition dt_minus :: "datetime \<Rightarrow> nat \<Rightarrow> nat \<Rightarrow> error + datetime" where
  "dt_minus d days secs =
     (let sod = hour d * 3600 + minute d * 60 + second d;
          borrow = (if sod < secs then 1 else 0);
          sod' = (if sod < secs then sod + 86400 - secs else sod - secs);
          ordinal = ymd2ord (year d) (month d) (day d)
      in if ordinal < days + borrow + 1 then Inl OverflowError
         else case ord2ymd (ordinal - days - borrow) of
               (y, m, dd) \<Rightarrow>
                 Inr (d\<lparr>year := y, month := m, day := dd, hour := sod' div 3600,
                        minute := sod' mod 3600 div 60, second := sod' mod 60\<rparr>))"

subsection \<open>cleanup_old_records\<close>

text \<open>\<open>now\<close> is the value of \<^verbatim>\<open>datetime.now()\<close>, the reading of the process clock;
  the stored timestamps are the readings \<^verbatim>\<open>CURRENT_TIMESTAMP\<close> gave, and the query
  compares the readings as they are. \<^verbatim>\<open>sqlite3\<close> binds the cutoff as the text
  \<^verbatim>\<open>cutoff.isoformat(" ")\<close>. The DELETE is committed before the VACUUM.\<close>

definition cleanup_old_records :: "datetime \<Rightarrow> state \<Rightarrow> (error + nat) \<times> state" where
  "cleanup_old_records now s =
     (if LOG_RETENTION_DAYS s \<le> 0 then (Inr 0, s)
      else case dt_minus now (nat (LOG_RETENTION_DAYS s)) 0 of
             Inl e \<Rightarrow> (Inl e, s)
           | Inr cutoff \<Rightarrow>
               (let c = get_db s;
                    old = (\<lambda>r. timestamp_lt (timestamp r) (isoformat (CHR '' '') cutoff));
                    count = length (filter old (rows c))
                in if count > 0
                   then (case commit (execute_delete old c) s of
                           (c', s') \<Rightarrow>
                             (case execute_vacuum c' of
                                Inl e \<Rightarrow> (Inl e, s')
                              | Inr c'' \<Rightarrow> (Inr count, s')))
                   else (Inr count, s)))"

subsection \<open>HTTP handlers\<close>

text \<open>A handler returns the response (status and JSON body), or the exception that
  escapes it and that Flask answers with status 500, together with the state it leaves.
  A POST body is a JSON object.\<close>

type_synonym response = "nat \<times> json"

text \<open>What the file system does with \<^verbatim>\<open>open(path, 'w')\<close> followed by
  \<^verbatim>\<open>json.dump\<close>: the write goes through, \<^verbatim>\<open>open\<close> raises (the file is untouched), or
  the dump raises after the file was truncated.\<close>

datatype disk = Writable | OpenFails | DumpFails

definition write_doc :: "disk \<Rightarrow> json \<Rightarrow> doc_file \<Rightarrow> bool \<times> doc_file" where
  "write_doc fs j f =
     (case fs of Writable \<Rightarrow> (True, Doc j) | OpenFails \<Rightarrow> (False, f) | DumpFails \<Rightarrow> (False, Malformed))"

text \<open>\<^verbatim>\<open>save_config\<close> catches and logs a failing write and returns nothing.\<close>

definition save_config :: "disk \<Rightarrow> state \<Rightarrow> state" where
  "save_config fs s =
     (let config = JObj [(''interval'', JInt (LOG_INTERVAL s)),
                         (''retention_days'', JInt (LOG_RETENTION_DAYS s)),
                         (''paused'', JBool (logger_paused s))]
      in s\<lparr>config_file := snd (write_doc fs config (config_file s))\<rparr>)"

definition load_user_config :: "state \<Rightarrow> json" where
  "load_user_config s =
     (case user_config_file s of Missing \<Rightarrow> JObj [] | Malformed \<Rightarrow> JObj [] | Doc j \<Rightarrow> j)"

definition save_user_config :: "disk \<Rightarrow> state \<Rightarrow> json \<Rightarrow> bool \<times> state" where
  "save_user_config fs s config =
     (case write_doc fs config (user_config_file s) of
        (ok, f) \<Rightarrow> (ok, s\<lparr>user_config_file := f\<rparr>))"

definition api_settings_get :: "state \<Rightarrow> response" where
  "api_settings_get s =
     (200, JObj [(''interval'', JInt (LOG_INTERVAL s)),
                 (''retention_days'', JInt (LOG_RETENTION_DAYS s)),
                 (''paused'', JBool (logger_paused s))])"

text \<open>The two guarded assignments of the POST branch, each with the state it leaves.\<close>

definition update_interval :: "state \<Rightarrow> dict \<Rightarrow> error + state" where
  "update_interval s data =
     (if dict_has data ''interval''
      then and_then (py_int (dict_get data ''interval'' JNull)) (\<lambda>new_interval.
             Inr (if 5 \<le> new_interval \<and> new_interval \<le> 60
                  then s\<lparr>LOG_INTERVAL := new_interval\<rparr> else s))
      else Inr s)"

definition update_retention :: "state \<Rightarrow> dict \<Rightarrow> error + state" where
  "update_retention s data =
     (if dict_has data ''retention_days''
      then and_then (py_int (dict_get data ''retention_days'' JNull)) (\<lambda>new_retention.
             Inr (if new_retention \<ge> 0
                  then s\<lparr>LOG_RETENTION_DAYS := new_retention\<rparr> else s))
      else Inr s)"

definition api_settings_post :: "disk \<Rightarrow> state \<Rightarrow> dict \<Rightarrow> (error + response) \<times> state" where
  "api_settings_post fs s data =
     (case update_interval s data of
        Inl e \<Rightarrow> (Inl e, s)
      | Inr s1 \<Rightarrow>
          (case update_retention s1 data of
             Inl e \<Rightarrow> (Inl e, s1)
           | Inr s2 \<Rightarrow>
               (Inr (200, JObj [(''success'', JBool True),
                                (''interval'', JInt (LOG_INTERVAL s2)),
                                (''retention_days'', JInt (LOG_RETENTION_DAYS s2))]),
                save_config fs s2)))"

fun dict_set :: "string \<Rightarrow> json \<Rightarrow> dict \<Rightarrow> dict" where
  "dict_set k v [] = [(k, v)]"
| "dict_set k v ((k', v') # d) = (if k = k' then (k, v) # d else (k', v') # dict_set k v d)"

definition dict_update :: "dict \<Rightarrow> dict \<Rightarrow> dict" where
  "dict_update config data = fold (\<lambda>(k, v) d. dict_set k v d) data config"

definition api_userconfig_get :: "state \<Rightarrow> response" where
  "api_userconfig_get s = (200, load_user_config s)"

definition api_userconfig_post :: "disk \<Rightarrow> state \<Rightarrow> dict \<Rightarrow> (error + response) \<times> state" where
  "api_userconfig_post fs s data =
     (if \<not> py_truthy (JObj data)
      then (Inr (400, JObj [(''success'', JBool False), (''error'', JStr ''No data provided'')]), s)
      else case load_user_config s of
             JObj config \<Rightarrow>
               (case save_user_config fs s (JObj (dict_update config data)) of
                  (ok, s') \<Rightarrow>
                    if ok
                    then (Inr (200, JObj [(''success'', JBool True),
                                          (''config'', JObj (dict_update config data))]), s')
                    else (Inr (500, JObj [(''success'', JBool False),
                                          (''error'', JStr ''Could not save config'')]), s'))
           | _ \<Rightarrow> (Inl AttributeError, s))"

text \<open>\<^verbatim>\<open>api_clear\<close> issues the VACUUM before the commit, on the connection whose DELETE
  has opened a transaction.\<close>

definition api_clear :: "state \<Rightarrow> (error + response) \<times> state" where
  "api_clear s =
     (let c = execute_delete (\<lambda>r. True) (get_db s)
      in case execute_vacuum c of
           Inl e \<Rightarrow> (Inl e, s)
         | Inr c' \<Rightarrow>
             (case commit c' s of
                (c'', s') \<Rightarrow>
                  (Inr (200, JObj [(''success'', JBool True)]), s'\<lparr>total_logged := 0\<rparr>)))"

subsection \<open>Queries\<close>

text \<open>A value read back from a row.\<close>

fun from_sql :: "sqlval \<Rightarrow> json" where
  "from_sql SNull = JNull"
| "from_sql (SInt i) = JInt i"
| "from_sql (SReal r) = JFloat r"
| "from_sql (SText t) = JStr t"

text \<open>The query of \<^verbatim>\<open>api_trace\<close>. One point of the answer is built from each row. A
  bound joins the query only when the request argument is present and not empty
  (\<^verbatim>\<open>if start_time:\<close>). \<^verbatim>\<open>ORDER BY timestamp\<close> is modelled by the stable \<open>sort_key\<close> over
  the table in rowid order; SQLite leaves the order of rows with equal timestamps open.\<close>

definition trace_point :: "row \<Rightarrow> json" where
  "trace_point r =
     JObj [(''timestamp'', JStr (timestamp r)), (''lat'', from_sql (lat r)),
           (''lon'', from_sql (lon r)), (''altitude'', from_sql (altitude r)),
           (''speed'', from_sql (speed r)), (''track'', from_sql (track r))]"

definition bound_ok :: "string option \<Rightarrow> (string \<Rightarrow> bool) \<Rightarrow> bool" where
  "bound_ok arg p = (case arg of None \<Rightarrow> True | Some a \<Rightarrow> if a \<noteq> [] then p a else True)"

definition trace_rows :: "state \<Rightarrow> string \<Rightarrow> string option \<Rightarrow> string option \<Rightarrow> row list" where
  "trace_rows s icao_arg start_time end_time =
     sort_key timestamp
       (filter (\<lambda>r. icao r = SText (str_upper icao_arg)
                    \<and> bound_ok start_time (timestamp_ge (timestamp r))
                    \<and> bound_ok end_time (timestamp_le (timestamp r)))
               (positions s))"

definition api_trace :: "state \<Rightarrow> string \<Rightarrow> string option \<Rightarrow> string option \<Rightarrow> response" where
  "api_trace s icao_arg start_time end_time =
     (let trace = map trace_point (trace_rows s icao_arg start_time end_time)
      in (200, JObj [(''icao'', JStr (str_upper icao_arg)),
                     (''positions'', JInt (int (length trace))),
                     (''trace'', JArr trace)]))"

text \<open>SQLite's order across storage classes (NULL, then numbers, then text) and the
  aggregate MAX, which skips NULL.\<close>

fun sql_less :: "sqlval \<Rightarrow> sqlval \<Rightarrow> bool" where
  "sql_less SNull b = (b \<noteq> SNull)"
| "sql_less (SInt i) (SInt j) = (i < j)"
| "sql_less (SInt i) (SReal y) = (real_of_int i < y)"
| "sql_less (SReal x) (SInt j) = (x < real_of_int j)"
| "sql_less (SReal x) (SReal y) = (x < y)"
| "sql_less (SText t) (SText u) = (t < u)"
| "sql_less (SText t) b = False"
| "sql_less a (SText u) = True"
| "sql_less a SNull = False"

definition sql_max :: "sqlval list \<Rightarrow> sqlval" where
  "sql_max vs = fold (\<lambda>v m. if sql_less m v then v else m) vs SNull"

record aircraft_agg =
  agg_icao :: sqlval
  agg_callsign :: sqlval
  agg_lat :: sqlval
  agg_lon :: sqlval
  agg_altitude :: sqlval
  last_seen :: string
  agg_positions :: nat

text \<open>The query of \<^verbatim>\<open>api_recent\<close>. The bare column \<^verbatim>\<open>callsign\<close> of the grouped query
  comes from a row of the group that the engine picks; \<open>bare\<close> is that pick. Groups are
  listed in descending \<open>last_seen\<close>, the order among equal keys being the engine's.\<close>

definition aggregate :: "(row list \<Rightarrow> row) \<Rightarrow> row list \<Rightarrow> sqlval \<Rightarrow> aircraft_agg" where
  "aggregate bare selected k =
     (let g = filter (\<lambda>r. icao r = k) selected
      in \<lparr>agg_icao = k, agg_callsign = callsign (bare g),
          agg_lat = sql_max (map lat g), agg_lon = sql_max (map lon g),
          agg_altitude = sql_max (map altitude g),
          last_seen = fold max (map timestamp g) [],
          agg_positions = length g\<rparr>)"

definition recent_rows :: "(row list \<Rightarrow> row) \<Rightarrow> state \<Rightarrow> string \<Rightarrow> aircraft_agg list" where
  "recent_rows bare s one_hour_ago =
     (let selected = filter (\<lambda>r. timestamp_ge (timestamp r) one_hour_ago) (positions s)
      in take 50 (rev (sort_key last_seen
                         (map (aggregate bare selected) (remdups (map icao selected))))))"

definition aircraft_json :: "aircraft_agg \<Rightarrow> json" where
  "aircraft_json a =
     JObj [(''icao'', from_sql (agg_icao a)), (''callsign'', from_sql (agg_callsign a)),
           (''lat'', from_sql (agg_lat a)), (''lon'', from_sql (agg_lon a)),
           (''altitude'', from_sql (agg_altitude a)), (''last_seen'', JStr (last_seen a)),
           (''positions'', JInt (int (agg_positions a)))]"

definition api_recent :: "(row list \<Rightarrow> row) \<Rightarrow> datetime \<Rightarrow> state \<Rightarrow> error + response" where
  "api_recent bare now s =
     and_then (dt_minus now 0 3600) (\<lambda>t.
       Inr (200, JArr (map aircraft_json (recent_rows bare s (isoformat (CHR ''T'') t)))))"

subsection \<open>Auxiliary notions and sample states\<close>

text \<open>A field of a JSON response body.\<close>

definition response_field :: "response \<Rightarrow> string \<Rightarrow> json" where
  "response_field r k = (case snd r of JObj kvs \<Rightarrow> dict_get kvs k JNull | _ \<Rightarrow> JNull)"

text \<open>The specification's reading of the interval update: the requested value clamped
  into the range 5 to 60. It is not taken from the source and serves only to compare.\<close>

definition spec_clamped_interval :: "int \<Rightarrow> int" where
  "spec_clamped_interval v = max 5 (min 60 v)"

text \<open>The process right after start with the default environment and an empty
  database.\<close>

definition boot_state :: state where
  "boot_state =
     \<lparr>positions = [], next_id = 1, LOG_INTERVAL = 10, LOG_RETENTION_DAYS = 14,
      logger_paused = False, total_logged = 0, config_file = Missing,
      user_config_file = Missing\<rparr>"

text \<open>When the INSERT of a record goes through: \<^verbatim>\<open>hex\<close> is absent or a string,
  \<^verbatim>\<open>flight\<close> is falsy or a string, and every bound value is one \<^verbatim>\<open>sqlite3\<close> accepts.\<close>

fun bindable :: "json \<Rightarrow> bool" where
  "bindable (JInt i) = (- (2 ^ 63) \<le> i \<and> i < 2 ^ 63)"
| "bindable (JArr xs) = False"
| "bindable (JObj kvs) = False"
| "bindable _ = True"

fun is_text :: "json \<Rightarrow> bool" where
  "is_text (JStr s) = True"
| "is_text _ = False"

definition ingestible :: "dict \<Rightarrow> bool" where
  "ingestible ac =
     (is_text (dict_get ac ''hex'' (JStr ''''))
      \<and> (if py_truthy (dict_get ac ''flight'' JNull)
         then is_text (dict_get ac ''flight'' JNull) else True)
      \<and> list_all bindable
          [dict_get ac ''lat'' JNull, dict_get ac ''lon'' JNull,
           py_or (dict_get ac ''alt_baro'' JNull) (dict_get ac ''alt_geom'' JNull),
           dict_get ac ''gs'' JNull, dict_get ac ''track'' JNull,
           py_or (dict_get ac ''baro_rate'' JNull) (dict_get ac ''geom_rate'' JNull),
           dict_get ac ''squawk'' JNull, dict_get ac ''category'' JNull,
           dict_get ac ''t'' JNull, dict_get ac ''rssi'' JNull])"

text \<open>Sample feed records: an aircraft in level flight at pressure altitude 0, a record
  without \<^verbatim>\<open>lat\<close>, and a positioned record without \<^verbatim>\<open>hex\<close>.\<close>

definition sample_clock :: "nat \<Rightarrow> string" where
  "sample_clock n = ''2024-03-05 12:00:00''"

definition level_flight :: dict where
  "level_flight =
     [(''hex'', JStr ''a1b2c3''), (''flight'', JStr ''UAL1    ''), (''lat'', JFloat 51.5),
      (''lon'', JFloat (- 0.12)), (''alt_baro'', JInt 0), (''alt_geom'', JInt 25),
      (''baro_rate'', JInt 0), (''geom_rate'', JInt (- 64))]"

definition sample_batch :: "dict list" where
  "sample_batch =
     [level_flight,
      [(''hex'', JStr ''abc124''), (''lon'', JInt 3)],
      [(''lat'', JInt 1), (''lon'', JInt 2)]]"

text \<open>The invariant of the table that \<^verbatim>\<open>save_aircraft\<close> maintains (it is the only
  writer of \<open>icao\<close>): every stored icao is an uppercased string. \<open>icao_matches q r\<close> says
  that the icao of row \<open>r\<close> equals \<open>q\<close> up to letter case.\<close>

definition icao_uppercased :: "state \<Rightarrow> bool" where
  "icao_uppercased s = (\<forall>r\<in>set (positions s). \<exists>t. icao r = SText (str_upper t))"

definition icao_matches :: "string \<Rightarrow> row \<Rightarrow> bool" where
  "icao_matches q r = (\<exists>u. icao r = SText u \<and> str_upper u = str_upper q)"

definition logged_state :: state where
  "logged_state = snd (save_aircraft sample_clock boot_state sample_batch)"

text \<open>The specification's reading of an interval that is out of range: a requested number
  below 5 or above 60. It is not taken from the source and serves only to compare.\<close>

fun spec_out_of_range :: "json \<Rightarrow> bool" where
  "spec_out_of_range (JInt i) = (i < 5 \<or> 60 < i)"
| "spec_out_of_range (JFloat r) = (r < 5 \<or> 60 < r)"
| "spec_out_of_range _ = False"

text \<open>A stored snapshot, every value in the storage class of its column, and a table of
  four of them: three of one aircraft, the last one written after the clock had been set
  back, and one of another aircraft.\<close>

definition snapshot :: "nat \<Rightarrow> string \<Rightarrow> string \<Rightarrow> real \<Rightarrow> int \<Rightarrow> row" where
  "snapshot n ts ic la al =
     \<lparr>rowid = n, timestamp = ts, icao = SText ic, callsign = SText ''UAL1'',
      lat = SReal la, lon = SReal (- 0.12), altitude = SInt al, speed = SReal 431.5,
      track = SInt 270, vert_rate = SInt 0, squawk = SText ''7700'', category = SText ''A3'',
      aircraft_type = SText ''B738'', rssi = SReal (- 12.5)\<rparr>"

definition trace_state :: state where
  "trace_state =
     boot_state\<lparr>positions :=
                  [snapshot 1 ''2024-03-05 12:00:00'' ''ABC123'' 51.5 35000,
                   snapshot 2 ''2024-03-05 12:00:00'' ''DEF456'' 48.25 1200,
                   snapshot 3 ''2024-03-05 12:00:20'' ''ABC123'' 51.75 35100,
                   snapshot 4 ''2024-03-05 12:00:10'' ''ABC123'' 51.625 35050],
                next_id := 5\<rparr>"









text \<open>A field of a JSON object.\<close>

definition json_field :: "json \<Rightarrow> string \<Rightarrow> json" where
  "json_field j k = (case j of JObj kvs \<Rightarrow> dict_get kvs k JNull | _ \<Rightarrow> JNull)"

text \<open>Two tables for the recent query. At one in the afternoon of 5 March 2024 the
  table holds three snapshots of the last half hour. Half an hour after midnight the
  table holds a snapshot of a quarter to midnight and two of the new day, the later one
  further south and lower than the earlier one.\<close>

definition afternoon_now :: datetime where
  "afternoon_now = \<lparr>year = 2024, month = 3, day = 5, hour = 13, minute = 0, second = 0,
                     microsecond = 250000\<rparr>"

definition afternoon_state :: state where
  "afternoon_state =
     boot_state\<lparr>positions :=
                  [snapshot 1 ''2024-03-05 12:30:00'' ''ABC123'' 51.5 35000,
                   snapshot 2 ''2024-03-05 12:45:00'' ''ABC123'' 51.75 35100,
                   snapshot 3 ''2024-03-05 12:50:00'' ''DEF456'' 48.25 1200],
                next_id := 4\<rparr>"

definition night_now :: datetime where
  "night_now = \<lparr>year = 2024, month = 3, day = 6, hour = 0, minute = 30, second = 0,
                 microsecond = 0\<rparr>"

definition night_state :: state where
  "night_state =
     boot_state\<lparr>positions :=
                  [snapshot 1 ''2024-03-05 23:45:00'' ''DEF456'' 48.25 1200,
                   snapshot 2 ''2024-03-06 00:10:00'' ''ABC123'' 51.75 35100,
                   snapshot 3 ''2024-03-06 00:20:00'' ''ABC123'' 51.5 35000],
                next_id := 4\<rparr>"

section \<open>Settings\<close>

lemma update_interval_cases:
  "update_interval s data = Inr s' \<Longrightarrow>
     s' = s \<or> (\<exists>v. 5 \<le> v \<and> v \<le> 60 \<and> s' = s\<lparr>LOG_INTERVAL := v\<rparr>)"
  by (auto simp: update_interval_def and_then_def split: if_splits sum.splits)

lemma update_interval_value:
  "dict_has data ''interval'' \<Longrightarrow> py_int (dict_get data ''interval'' JNull) = Inr v \<Longrightarrow>
     update_interval s data = Inr (if 5 \<le> v \<and> v \<le> 60 then s\<lparr>LOG_INTERVAL := v\<rparr> else s)"
  by (simp add: update_interval_def and_then_def)

lemma update_retention_keeps:
  "update_retention s data = Inr s' \<Longrightarrow>
     LOG_INTERVAL s' = LOG_INTERVAL s \<and> logger_paused s' = logger_paused s"
  by (auto simp: update_retention_def and_then_def split: if_splits sum.splits)

lemma save_config_globals:
  "LOG_INTERVAL (save_config fs s) = LOG_INTERVAL s"
  "LOG_RETENTION_DAYS (save_config fs s) = LOG_RETENTION_DAYS s"
  "logger_paused (save_config fs s) = logger_paused s"
  by (simp_all add: save_config_def Let_def)

lemma post_interval_cases:
  "LOG_INTERVAL (snd (api_settings_post fs s data)) = LOG_INTERVAL s \<or>
   (5 \<le> LOG_INTERVAL (snd (api_settings_post fs s data)) \<and>
    LOG_INTERVAL (snd (api_settings_post fs s data)) \<le> 60)"
  by (auto simp: api_settings_post_def save_config_globals split: sum.splits
      dest!: update_interval_cases update_retention_keeps)

lemma post_interval_value:
  assumes "dict_has data ''interval''" "py_int (dict_get data ''interval'' JNull) = Inr v"
  shows "LOG_INTERVAL (snd (api_settings_post fs s data)) =
           (if 5 \<le> v \<and> v \<le> 60 then v else LOG_INTERVAL s)"
  using assms
  by (auto simp: api_settings_post_def save_config_globals update_interval_value
      split: sum.splits dest!: update_retention_keeps)

lemma post_paused:
  "logger_paused (snd (api_settings_post fs s data)) = logger_paused s"
  by (auto simp: api_settings_post_def save_config_globals split: sum.splits
      dest!: update_interval_cases update_retention_keeps)

text \<open>
  Claim C5, as stated: writing \<open>{interval: 20, retention_days: 7}\<close> and reading back
  returns those values, and every interval below 5 or above 60 is rejected, a subsequent
  read returning the interval stored before. The second half fails for a fractional
  interval: the handler converts the requested value with \<^verbatim>\<open>int\<close>, which truncates,
  before it tests the range. The interval 60.5 is above 60, yet 60 is stored over the
  previous 10 and the next read returns 60.
\<close>

theorem fractional_interval_stored_counterexample:
  "spec_out_of_range (JFloat 60.5)
   \<and> api_settings_get boot_state
       = (200, JObj [(''interval'', JInt 10), (''retention_days'', JInt 14),
                     (''paused'', JBool False)])
   \<and> api_settings_get
       (snd (api_settings_post Writable boot_state [(''interval'', JFloat 60.5)]))
       = (200, JObj [(''interval'', JInt 60), (''retention_days'', JInt 14),
                     (''paused'', JBool False)])"
  by (simp add: api_settings_post_def api_settings_get_def update_interval_def
      update_retention_def dict_has_def dict_get_def and_then_def save_config_def
      boot_state_def)

text \<open>
  Claim C5, amended. Posting \<open>{interval: 20, retention_days: 7}\<close> and then reading the
  settings returns exactly 20 and 7 (next to the unchanged pause flag), whatever the
  stored state and whether or not the config file could be written. For every request
  whose \<open>interval\<close>, once converted by \<^verbatim>\<open>int\<close>, is below 5 or above 60, the interval is
  not assigned: the state after the request holds the interval stored before and a
  subsequent read returns it; the request is not refused, though: when its
  \<open>retention_days\<close> is acceptable the answer is 200 with \<open>success: true\<close> and the stored
  interval, and the retention is still applied and saved. A fractional interval from 5
  up to, but not including, 61 is stored truncated to an integer.
\<close>

theorem settings_round_trip:
  "api_settings_get
     (snd (api_settings_post fs s [(''interval'', JInt 20), (''retention_days'', JInt 7)]))
     = (200, JObj [(''interval'', JInt 20), (''retention_days'', JInt 7),
                   (''paused'', JBool (logger_paused s))])
   \<and> (dict_has data ''interval'' \<and> py_int (dict_get data ''interval'' JNull) = Inr v
        \<and> (v < 5 \<or> 60 < v)
      \<longrightarrow> LOG_INTERVAL (snd (api_settings_post fs s data)) = LOG_INTERVAL s
          \<and> response_field (api_settings_get (snd (api_settings_post fs s data))) ''interval''
              = JInt (LOG_INTERVAL s)
          \<and> (\<forall>s2. update_retention s data = Inr s2 \<longrightarrow>
                api_settings_post fs s data =
                  (Inr (200, JObj [(''success'', JBool True),
                                   (''interval'', JInt (LOG_INTERVAL s)),
                                   (''retention_days'', JInt (LOG_RETENTION_DAYS s2))]),
                   save_config fs s2)))
   \<and> (dict_has data ''interval'' \<and> dict_get data ''interval'' JNull = JFloat r
        \<and> 5 \<le> r \<and> r < 61
      \<longrightarrow> LOG_INTERVAL (snd (api_settings_post fs s data)) = \<lfloor>r\<rfloor>)"
proof -
  have a: "api_settings_get
     (snd (api_settings_post fs s [(''interval'', JInt 20), (''retention_days'', JInt 7)]))
     = (200, JObj [(''interval'', JInt 20), (''retention_days'', JInt 7),
                   (''paused'', JBool (logger_paused s))])"
    by (simp add: api_settings_post_def api_settings_get_def update_interval_def
        update_retention_def dict_has_def dict_get_def and_then_def save_config_def)
  have b: "LOG_INTERVAL (snd (api_settings_post fs s data)) = LOG_INTERVAL s"
    if "dict_has data ''interval''" "py_int (dict_get data ''interval'' JNull) = Inr v"
       "v < 5 \<or> 60 < v"
    using post_interval_value [OF that(1) that(2), of fs s] that(3) by auto
  have c: "response_field (api_settings_get (snd (api_settings_post fs s data))) ''interval''
             = JInt (LOG_INTERVAL s)"
    if "dict_has data ''interval''" "py_int (dict_get data ''interval'' JNull) = Inr v"
       "v < 5 \<or> 60 < v"
    using b [OF that] by (simp add: response_field_def api_settings_get_def dict_get_def)
  have d: "api_settings_post fs s data =
             (Inr (200, JObj [(''success'', JBool True),
                              (''interval'', JInt (LOG_INTERVAL s)),
                              (''retention_days'', JInt (LOG_RETENTION_DAYS s2))]),
              save_config fs s2)"
    if "dict_has data ''interval''" "py_int (dict_get data ''interval'' JNull) = Inr v"
       "v < 5 \<or> 60 < v" "update_retention s data = Inr s2" for s2
  proof -
    from that(1,2,3) have "update_interval s data = Inr s"
      by (auto simp: update_interval_value)
    with that(4) update_retention_keeps [OF that(4)] show ?thesis
      by (simp add: api_settings_post_def)
  qed
  have e: "LOG_INTERVAL (snd (api_settings_post fs s data)) = \<lfloor>r\<rfloor>"
    if "dict_has data ''interval''" "dict_get data ''interval'' JNull = JFloat r"
       "5 \<le> r" "r < 61"
  proof -
    from that(3) have p: "py_int (dict_get data ''interval'' JNull) = Inr \<lfloor>r\<rfloor>"
      by (simp add: that(2))
    from that(3) have "5 \<le> \<lfloor>r\<rfloor>" by (simp add: le_floor_iff)
    moreover from that(4) have "\<lfloor>r\<rfloor> \<le> 60" by (simp add: floor_le_iff)
    ultimately show ?thesis using post_interval_value [OF that(1) p, of fs s] by simp
  qed
  show ?thesis using a b c d e by blast
qed

theorem settings_round_trip_witness:
  "api_settings_get
     (snd (api_settings_post Writable boot_state
             [(''interval'', JInt 20), (''retention_days'', JInt 7)]))
     = (200, JObj [(''interval'', JInt 20), (''retention_days'', JInt 7),
                   (''paused'', JBool False)])
   \<and> api_settings_post Writable boot_state [(''interval'', JInt 100), (''retention_days'', JInt 7)]
     = (Inr (200, JObj [(''success'', JBool True), (''interval'', JInt 10),
                        (''retention_days'', JInt 7)]),
        boot_state\<lparr>LOG_RETENTION_DAYS := 7,
          config_file := Doc (JObj [(''interval'', JInt 10), (''retention_days'', JInt 7),
                                    (''paused'', JBool False)])\<rparr>)
   \<and> response_field
        (api_settings_get
           (snd (api_settings_post Writable boot_state
                   [(''interval'', JInt 100), (''retention_days'', JInt 7)])))
        ''interval'' = JInt 10
   \<and> LOG_INTERVAL (snd (api_settings_post Writable boot_state [(''interval'', JFloat 59.9)])) = 59"
proof -
  have r: "update_retention boot_state [(''interval'', JInt 100), (''retention_days'', JInt 7)]
             = Inr (boot_state\<lparr>LOG_RETENTION_DAYS := 7\<rparr>)"
    by (simp add: update_retention_def dict_has_def dict_get_def and_then_def)
  have f: "\<lfloor>59.9 :: real\<rfloor> = 59" by simp
  from settings_round_trip
         [of Writable boot_state "[(''interval'', JInt 100), (''retention_days'', JInt 7)]"
             100 "59.9"]
       settings_round_trip [of Writable boot_state "[(''interval'', JFloat 59.9)]" 0 "59.9"]
       r f
  show ?thesis
    by (simp add: dict_has_def dict_get_def save_config_def write_doc_def boot_state_def
        response_field_def api_settings_get_def)
qed

text \<open>
  Claim C6, as stated: after every settings update the stored poll interval lies in 5 to
  60, an out-of-range request being clamped into the range. The source does not clamp:
  the guard \<^verbatim>\<open>if 5 <= new_interval <= 60\<close> skips the assignment. A request for 100 leaves
  the stored 10 where clamping gives 60, and a process started with
  \<^verbatim>\<open>LOG_INTERVAL=120\<close> keeps 120 after the same request.
\<close>

theorem interval_not_clamped_counterexample:
  "LOG_INTERVAL (snd (api_settings_post Writable boot_state [(''interval'', JInt 100)]))
     \<noteq> spec_clamped_interval 100
   \<and> \<not> LOG_INTERVAL (snd (api_settings_post Writable (boot_state\<lparr>LOG_INTERVAL := 120\<rparr>)
                            [(''interval'', JInt 100)])) \<le> 60"
  by (simp add: api_settings_post_def update_interval_def update_retention_def dict_has_def
      dict_get_def and_then_def save_config_def boot_state_def spec_clamped_interval_def)

text \<open>
  Claim C6, amended: a settings update assigns the requested interval exactly when its
  integer value lies in 5 to 60 and otherwise keeps the stored interval; so the stored
  interval lies in 5 to 60 after the update whenever it did before, also when the
  request fails half way.
\<close>

theorem interval_assigned_only_in_range:
  "(dict_has data ''interval'' \<and> py_int (dict_get data ''interval'' JNull) = Inr v
      \<longrightarrow> LOG_INTERVAL (snd (api_settings_post fs s data))
            = (if 5 \<le> v \<and> v \<le> 60 then v else LOG_INTERVAL s))
   \<and> (5 \<le> LOG_INTERVAL s \<and> LOG_INTERVAL s \<le> 60
      \<longrightarrow> 5 \<le> LOG_INTERVAL (snd (api_settings_post fs s data))
          \<and> LOG_INTERVAL (snd (api_settings_post fs s data)) \<le> 60)"
  using post_interval_value [of data v fs s] post_interval_cases [of fs s data] by auto

theorem interval_assigned_only_in_range_witness:
  "LOG_INTERVAL (snd (api_settings_post Writable boot_state [(''interval'', JStr '' 45 '')])) = 45
   \<and> 5 \<le> LOG_INTERVAL (snd (api_settings_post Writable boot_state [(''interval'', JStr '' 45 '')]))
   \<and> LOG_INTERVAL (snd (api_settings_post Writable boot_state [(''interval'', JStr '' 45 '')])) \<le> 60"
proof -
  have "py_int (dict_get [(''interval'', JStr '' 45 '')] ''interval'' JNull) = Inr 45"
    by (simp add: dict_get_def str_to_int_def c_isspace_def is_digit_def
        digits_value_def Let_def)
  then show ?thesis
    using interval_assigned_only_in_range
            [of "[(''interval'', JStr '' 45 '')]" 45 Writable boot_state]
    by (simp add: dict_has_def boot_state_def)
qed

text \<open>
  Claim C9 says that a settings update and a user-config update both report failure
  when the config document cannot be written. The settings update does not:
  \<^verbatim>\<open>save_config\<close> swallows the exception and returns nothing, and \<^verbatim>\<open>api_settings\<close>
  answers 200 with \<open>success: true\<close> while the file stays as it was. The user-config
  update, whose \<^verbatim>\<open>save_user_config\<close> returns a flag, answers 500 with
  \<open>success: false\<close>. Neither raises, so the process goes on.
\<close>

theorem settings_write_failure_unreported:
  "api_settings_post OpenFails s [(''interval'', JInt 20)]
     = (Inr (200, JObj [(''success'', JBool True), (''interval'', JInt 20),
                        (''retention_days'', JInt (LOG_RETENTION_DAYS s))]),
        s\<lparr>LOG_INTERVAL := 20\<rparr>)
   \<and> api_userconfig_post OpenFails (s\<lparr>user_config_file := Missing\<rparr>) [(''adsbx_id'', JStr ''x1'')]
     = (Inr (500, JObj [(''success'', JBool False), (''error'', JStr ''Could not save config'')]),
        s\<lparr>user_config_file := Missing\<rparr>)"
  by (simp add: api_settings_post_def update_interval_def update_retention_def dict_has_def
      dict_get_def and_then_def save_config_def write_doc_def api_userconfig_post_def
      load_user_config_def save_user_config_def)

theorem settings_write_failure_unreported_witness:
  "fst (api_settings_post OpenFails boot_state [(''interval'', JInt 20)])
     = Inr (200, JObj [(''success'', JBool True), (''interval'', JInt 20),
                       (''retention_days'', JInt 14)])
   \<and> config_file (snd (api_settings_post OpenFails boot_state [(''interval'', JInt 20)])) = Missing"
  using settings_write_failure_unreported [of boot_state] by (simp add: boot_state_def)

section \<open>Clearing the log\<close>

text \<open>
  Claim C8 says that the clear operation leaves the table empty and the total-logged
  counter at 0. In the source the DELETE opens a transaction and the VACUUM comes before
  the commit, so the engine refuses it: the handler raises, the connection is dropped
  with the DELETE uncommitted, and the assignment \<^verbatim>\<open>total_logged = 0\<close> is never reached.
  Every row and the counter stay as they were. (\<^verbatim>\<open>cleanup_old_records\<close> commits before
  its VACUUM.)
\<close>

theorem api_clear_raises: "api_clear s = (Inl OperationalError, s)"
  by (simp add: api_clear_def execute_vacuum_def execute_delete_def)

theorem api_clear_raises_witness:
  "fst (api_clear (boot_state\<lparr>total_logged := 3\<rparr>)) = Inl OperationalError
   \<and> total_logged (snd (api_clear (boot_state\<lparr>total_logged := 3\<rparr>))) = 3"
  using api_clear_raises [of "boot_state\<lparr>total_logged := 3\<rparr>"] by simp

section \<open>Saving aircraft\<close>

lemma adapt_bindable: "(\<exists>x. adapt v = Inr x) = bindable v"
  by (cases v) auto

lemma adapt_Inr_iff: "bindable v \<Longrightarrow> \<exists>x. adapt v = Inr x"
  by (simp add: adapt_bindable)

lemma is_text_iff: "is_text v = (\<exists>t. v = JStr t)"
  by (cases v) auto

lemma dict_get_flight_truthy:
  "py_truthy (dict_get ac ''flight'' JNull) \<Longrightarrow> dict_get ac ''flight'' (JStr '''') = dict_get ac ''flight'' JNull"
  by (auto simp: dict_get_def split: option.splits)

lemma positions_row_total:
  assumes "ingestible ac"
  shows "\<exists>r. positions_row n ts ac = Inr r"
proof -
  from assms obtain h where h: "dict_get ac ''hex'' (JStr '''') = JStr h"
    by (auto simp: ingestible_def is_text_iff)
  from assms obtain f where f: "(if py_truthy (dict_get ac ''flight'' JNull)
               then py_strip (dict_get ac ''flight'' (JStr '''')) else Inr JNull) = Inr f" "bindable f"
    by (auto simp: ingestible_def is_text_iff dict_get_flight_truthy split: if_splits)
  from assms have b: "bindable (dict_get ac ''lat'' JNull)" "bindable (dict_get ac ''lon'' JNull)"
     "bindable (py_or (dict_get ac ''alt_baro'' JNull) (dict_get ac ''alt_geom'' JNull))"
     "bindable (dict_get ac ''gs'' JNull)" "bindable (dict_get ac ''track'' JNull)"
     "bindable (py_or (dict_get ac ''baro_rate'' JNull) (dict_get ac ''geom_rate'' JNull))"
     "bindable (dict_get ac ''squawk'' JNull)" "bindable (dict_get ac ''category'' JNull)"
     "bindable (dict_get ac ''t'' JNull)" "bindable (dict_get ac ''rssi'' JNull)"
    by (simp_all add: ingestible_def)
  from b [THEN adapt_Inr_iff] adapt_Inr_iff [OF f(2)] obtain p2 p3 p4 p5 p6 p7 p8 p9 p10 p11 p12 where
    "adapt f = Inr p2" "adapt (dict_get ac ''lat'' JNull) = Inr p3" "adapt (dict_get ac ''lon'' JNull) = Inr p4"
    "adapt (py_or (dict_get ac ''alt_baro'' JNull) (dict_get ac ''alt_geom'' JNull)) = Inr p5"
    "adapt (dict_get ac ''gs'' JNull) = Inr p6" "adapt (dict_get ac ''track'' JNull) = Inr p7"
    "adapt (py_or (dict_get ac ''baro_rate'' JNull) (dict_get ac ''geom_rate'' JNull)) = Inr p8"
    "adapt (dict_get ac ''squawk'' JNull) = Inr p9" "adapt (dict_get ac ''category'' JNull) = Inr p10"
    "adapt (dict_get ac ''t'' JNull) = Inr p11" "adapt (dict_get ac ''rssi'' JNull) = Inr p12"
    by blast
  with h f(1) show ?thesis
    by (simp add: positions_row_def and_then_def)
qed

lemma and_then_Inr: "and_then r f = Inr y \<Longrightarrow> \<exists>x. r = Inr x \<and> f x = Inr y"
  by (cases r) (simp_all add: and_then_def)

lemma positions_row_Inr:
  assumes "positions_row n ts ac = Inr r"
  shows "\<exists>hex flight.
      py_upper (dict_get ac ''hex'' (JStr '''')) = Inr hex
    \<and> (if py_truthy (dict_get ac ''flight'' JNull)
        then py_strip (dict_get ac ''flight'' (JStr '''')) else Inr JNull) = Inr flight
    \<and> adapt hex = Inr (icao r) \<and> adapt flight = Inr (callsign r)
    \<and> adapt (dict_get ac ''lat'' JNull) = Inr (lat r)
    \<and> adapt (dict_get ac ''lon'' JNull) = Inr (lon r)
    \<and> adapt (py_or (dict_get ac ''alt_baro'' JNull) (dict_get ac ''alt_geom'' JNull)) = Inr (altitude r)
    \<and> adapt (dict_get ac ''gs'' JNull) = Inr (speed r)
    \<and> adapt (dict_get ac ''track'' JNull) = Inr (track r)
    \<and> adapt (py_or (dict_get ac ''baro_rate'' JNull) (dict_get ac ''geom_rate'' JNull)) = Inr (vert_rate r)
    \<and> adapt (dict_get ac ''squawk'' JNull) = Inr (squawk r)
    \<and> adapt (dict_get ac ''category'' JNull) = Inr (category r)
    \<and> adapt (dict_get ac ''t'' JNull) = Inr (aircraft_type r)
    \<and> adapt (dict_get ac ''rssi'' JNull) = Inr (rssi r)
    \<and> rowid r = n \<and> timestamp r = ts"
  using assms unfolding positions_row_def
  by (auto dest!: and_then_Inr)

lemma py_upper_Inr: "py_upper v = Inr w \<Longrightarrow> \<exists>h. v = JStr h \<and> w = JStr (str_upper h)"
  by (cases v) auto

lemma py_strip_Inr: "py_strip v = Inr w \<Longrightarrow> \<exists>h. v = JStr h \<and> w = JStr (str_strip h)"
  by (cases v) auto

lemma positions_row_ingestible:
  assumes "positions_row n ts ac = Inr r"
  shows "ingestible ac"
proof -
  from positions_row_Inr [OF assms] obtain hex flight where
    1: "py_upper (dict_get ac ''hex'' (JStr '''')) = Inr hex"
    and 2: "(if py_truthy (dict_get ac ''flight'' JNull)
        then py_strip (dict_get ac ''flight'' (JStr '''')) else Inr JNull) = Inr flight"
    and 3: "\<exists>x. adapt (dict_get ac ''lat'' JNull) = Inr x"
      "\<exists>x. adapt (dict_get ac ''lon'' JNull) = Inr x"
      "\<exists>x. adapt (py_or (dict_get ac ''alt_baro'' JNull) (dict_get ac ''alt_geom'' JNull)) = Inr x"
      "\<exists>x. adapt (dict_get ac ''gs'' JNull) = Inr x"
      "\<exists>x. adapt (dict_get ac ''track'' JNull) = Inr x"
      "\<exists>x. adapt (py_or (dict_get ac ''baro_rate'' JNull) (dict_get ac ''geom_rate'' JNull)) = Inr x"
      "\<exists>x. adapt (dict_get ac ''squawk'' JNull) = Inr x"
      "\<exists>x. adapt (dict_get ac ''category'' JNull) = Inr x"
      "\<exists>x. adapt (dict_get ac ''t'' JNull) = Inr x"
      "\<exists>x. adapt (dict_get ac ''rssi'' JNull) = Inr x"
    by blast
  from 1 have a: "is_text (dict_get ac ''hex'' (JStr ''''))"
    by (auto dest: py_upper_Inr)
  from 2 have b: "py_truthy (dict_get ac ''flight'' JNull) \<Longrightarrow> is_text (dict_get ac ''flight'' JNull)"
    by (auto dest!: py_strip_Inr simp: dict_get_flight_truthy)
  show ?thesis
    using a b 3 by (simp add: ingestible_def adapt_bindable)
qed

lemma positions_row_icao:
  assumes "positions_row n ts ac = Inr r"
  shows "\<exists>h. dict_get ac ''hex'' (JStr '''') = JStr h \<and> icao r = SText (str_upper h)"
  using positions_row_Inr [OF assms] by (auto dest!: py_upper_Inr)

lemma positions_row_callsign:
  assumes "positions_row n ts ac = Inr r"
  shows "callsign r = (case dict_get ac ''flight'' JNull of
                        JStr f \<Rightarrow> if f = [] then SNull else SText (str_strip f) | _ \<Rightarrow> SNull)"
  using positions_row_Inr [OF assms]
  by (auto dest!: py_strip_Inr simp: dict_get_flight_truthy split: if_splits json.splits)


lemma insert_all_ok:
  assumes "\<forall>ac\<in>set acs. has_position ac \<longrightarrow> ingestible ac"
  shows "\<exists>new. insert_all clock c count acs =
            Inr (c\<lparr>rows := rows c @ new, seq := seq c + length new,
                   in_txn := (in_txn c \<or> new \<noteq> [])\<rparr>, count + length new)
          \<and> list_all2 (\<lambda>ac r. positions_row (rowid r) (clock (rowid r)) ac = Inr r)
               (filter has_position acs) new"
  using assms
proof (induction acs arbitrary: c count)
  case Nil
  then show ?case by simp
next
  case (Cons ac acs)
  show ?case
  proof (cases "has_position ac")
    case False
    with Cons show ?thesis by simp
  next
    case True
    with Cons.prems have "ingestible ac" by simp
    then obtain r where r: "positions_row (seq c) (clock (seq c)) ac = Inr r"
      using positions_row_total by blast
    then have rid: "rowid r = seq c"
      using positions_row_Inr by blast
    from Cons.prems have "\<forall>a\<in>set acs. has_position a \<longrightarrow> ingestible a" by simp
    from Cons.IH [OF this, of "execute_insert r c" "count + 1"]
    obtain new where new:
      "insert_all clock (execute_insert r c) (count + 1) acs =
         Inr ((execute_insert r c)\<lparr>rows := rows (execute_insert r c) @ new,
                seq := seq (execute_insert r c) + length new,
                in_txn := (in_txn (execute_insert r c) \<or> new \<noteq> [])\<rparr>, count + 1 + length new)"
      "list_all2 (\<lambda>ac r. positions_row (rowid r) (clock (rowid r)) ac = Inr r)
               (filter has_position acs) new"
      by blast
    show ?thesis
      apply (rule exI [of _ "r # new"])
      using True r rid new by (simp add: execute_insert_def)
  qed
qed

lemma insert_all_Inr_ingestible:
  "insert_all clock c count acs = Inr res \<Longrightarrow> \<forall>ac\<in>set acs. has_position ac \<longrightarrow> ingestible ac"
proof (induction acs arbitrary: c count)
  case Nil
  then show ?case by simp
next
  case (Cons ac acs)
  then show ?case
    by (auto split: if_splits sum.splits dest: positions_row_ingestible)
qed

lemma save_aircraft_ok:
  assumes "\<forall>ac\<in>set aircraft_list. has_position ac \<longrightarrow> ingestible ac"
  shows "\<exists>new. save_aircraft clock s aircraft_list =
           (Inr (length new),
            s\<lparr>positions := positions s @ new, next_id := next_id s + length new,
              total_logged := total_logged s + length new\<rparr>)
         \<and> list_all2 (\<lambda>ac r. positions_row (rowid r) (clock (rowid r)) ac = Inr r)
             (filter has_position aircraft_list) new"
proof (cases "aircraft_list = []")
  case True
  then show ?thesis by (simp add: save_aircraft_def)
next
  case False
  from insert_all_ok [OF assms, of clock "get_db s" 0] obtain new where
    "insert_all clock (get_db s) 0 aircraft_list =
            Inr ((get_db s)\<lparr>rows := rows (get_db s) @ new, seq := seq (get_db s) + length new,
                   in_txn := (in_txn (get_db s) \<or> new \<noteq> [])\<rparr>, 0 + length new)"
    "list_all2 (\<lambda>ac r. positions_row (rowid r) (clock (rowid r)) ac = Inr r)
               (filter has_position aircraft_list) new"
    by blast
  with False show ?thesis
    by (auto simp: save_aircraft_def get_db_def commit_def intro!: exI [of _ new])
qed

lemma save_aircraft_fail:
  assumes "\<not> (\<forall>ac\<in>set aircraft_list. has_position ac \<longrightarrow> ingestible ac)"
  shows "\<exists>e. save_aircraft clock s aircraft_list = (Inl e, s)"
proof -
  from assms have ne: "aircraft_list \<noteq> []" by auto
  have "\<exists>e. insert_all clock (get_db s) 0 aircraft_list = Inl e"
    using assms insert_all_Inr_ingestible [of clock "get_db s" 0 aircraft_list]
    by (cases "insert_all clock (get_db s) 0 aircraft_list") auto
  with ne show ?thesis by (auto simp: save_aircraft_def)
qed

lemma list_all2_set2:
  "list_all2 P xs ys \<Longrightarrow> y \<in> set ys \<Longrightarrow> \<exists>x\<in>set xs. P x y"
  by (induction rule: list_all2_induct) auto

lemma str_upper_sample: "str_upper ''a1b2c3'' = ''A1B2C3''"
  by code_simp

lemma sample_batch_ingestible:
  "\<forall>ac\<in>set sample_batch. has_position ac \<longrightarrow> ingestible ac"
  by (simp add: sample_batch_def level_flight_def has_position_def dict_has_def ingestible_def
      dict_get_def py_or_def)

lemma sample_batch_positioned:
  "filter has_position sample_batch = [level_flight, [(''lat'', JInt 1), (''lon'', JInt 2)]]"
  by (simp add: sample_batch_def level_flight_def has_position_def dict_has_def)

text \<open>
  Claim C1. For every list of aircraft records whose positioned records (those holding
  both the key \<open>lat\<close> and the key \<open>lon\<close>) the INSERT accepts, \<^verbatim>\<open>save_aircraft\<close> returns
  normally; the table grows by exactly one row for each positioned record, in order, and
  by no row for a record that lacks \<open>lat\<close> or \<open>lon\<close>; and the value returned (also added
  to the total-logged counter) is the number of rows inserted.
\<close>

theorem save_aircraft_one_row_per_position:
  assumes "\<forall>ac\<in>set aircraft_list. has_position ac \<longrightarrow> ingestible ac"
  shows "\<exists>new. save_aircraft clock s aircraft_list =
           (Inr (length new),
            s\<lparr>positions := positions s @ new, next_id := next_id s + length new,
              total_logged := total_logged s + length new\<rparr>)
         \<and> list_all2 (\<lambda>ac r. positions_row (rowid r) (clock (rowid r)) ac = Inr r)
             (filter has_position aircraft_list) new"
  using save_aircraft_ok [OF assms] .

theorem save_aircraft_one_row_per_position_witness:
  "fst (save_aircraft sample_clock boot_state sample_batch) = Inr 2
   \<and> length (positions (snd (save_aircraft sample_clock boot_state sample_batch))) = 2
   \<and> total_logged (snd (save_aircraft sample_clock boot_state sample_batch)) = 2"
proof -
  from save_aircraft_one_row_per_position [OF sample_batch_ingestible, of sample_clock boot_state]
  obtain new where new:
    "save_aircraft sample_clock boot_state sample_batch =
       (Inr (length new),
        boot_state\<lparr>positions := positions boot_state @ new,
                   next_id := next_id boot_state + length new,
                   total_logged := total_logged boot_state + length new\<rparr>)"
    "list_all2 (\<lambda>ac r. positions_row (rowid r) (sample_clock (rowid r)) ac = Inr r)
       (filter has_position sample_batch) new"
    by blast
  from new(2) have "length new = 2"
    by (auto simp: sample_batch_positioned dest: list_all2_lengthD)
  with new(1) show ?thesis by (simp add: boot_state_def)
qed

text \<open>
  Claim C3 says that altitude is \<open>alt_baro\<close>, falling back to \<open>alt_geom\<close> only when
  \<open>alt_baro\<close> is absent, and likewise for the vertical rate. The source writes the
  fallback as \<^verbatim>\<open>ac.get('alt_baro') or ac.get('alt_geom')\<close>, and \<^verbatim>\<open>or\<close> also discards a
  present value that is zero. The record \<open>level_flight\<close> carries \<open>alt_baro = 0\<close>,
  \<open>alt_geom = 25\<close>, \<open>baro_rate = 0\<close> and \<open>geom_rate = -64\<close>: the row stored for it holds
  altitude 25 and vertical rate -64. Its icao is the uppercased \<open>hex\<close> and its callsign
  the trimmed \<open>flight\<close>, as the claim says.
\<close>

theorem zero_baro_value_replaced:
  "map (\<lambda>r. (icao r, callsign r, altitude r, vert_rate r))
     (positions (snd (save_aircraft sample_clock boot_state [level_flight])))
   = [(SText ''A1B2C3'', SText ''UAL1'', SInt 25, SInt (- 64))]"
  by (simp add: save_aircraft_def get_db_def commit_def execute_insert_def has_position_def
      dict_has_def positions_row_def and_then_def dict_get_def py_or_def level_flight_def
      boot_state_def str_strip_def is_space_def sample_clock_def str_upper_sample)

theorem zero_baro_value_replaced_witness:
  "length (positions (snd (save_aircraft sample_clock boot_state [level_flight]))) = 1"
  using zero_baro_value_replaced [THEN arg_cong, of length] by simp

text \<open>
  Claim C10. Whatever the batch, the rows \<^verbatim>\<open>save_aircraft\<close> adds to the table all hold a
  text icao, never NULL (a batch that raises adds none). When the batch is accepted, a
  positioned record without the key \<open>hex\<close> still gets its row, and that row's icao is the
  empty string: the stored icao need not be a six-digit hexadecimal identifier.
\<close>

theorem stored_icao_text_possibly_empty:
  "\<exists>new. positions (snd (save_aircraft clock s aircraft_list)) = positions s @ new
     \<and> (\<forall>r\<in>set new. \<exists>t. icao r = SText t)
     \<and> ((\<forall>ac\<in>set aircraft_list. has_position ac \<longrightarrow> ingestible ac) \<longrightarrow>
          list_all2 (\<lambda>ac r. \<not> dict_has ac ''hex'' \<longrightarrow> icao r = SText '''')
            (filter has_position aircraft_list) new)"
proof (cases "\<forall>ac\<in>set aircraft_list. has_position ac \<longrightarrow> ingestible ac")
  case True
  from save_aircraft_ok [OF True, of clock s] obtain new where new:
    "save_aircraft clock s aircraft_list =
       (Inr (length new),
        s\<lparr>positions := positions s @ new, next_id := next_id s + length new,
          total_logged := total_logged s + length new\<rparr>)"
    "list_all2 (\<lambda>ac r. positions_row (rowid r) (clock (rowid r)) ac = Inr r)
       (filter has_position aircraft_list) new"
    by blast
  have a: "\<forall>r\<in>set new. \<exists>t. icao r = SText t"
  proof
    fix r assume "r \<in> set new"
    from list_all2_set2 [OF new(2) this] obtain ac where
      "positions_row (rowid r) (clock (rowid r)) ac = Inr r" by blast
    then show "\<exists>t. icao r = SText t" using positions_row_icao by blast
  qed
  have b: "list_all2 (\<lambda>ac r. \<not> dict_has ac ''hex'' \<longrightarrow> icao r = SText '''')
            (filter has_position aircraft_list) new"
  proof (rule list_all2_mono [OF new(2)])
    fix ac r assume "positions_row (rowid r) (clock (rowid r)) ac = Inr r"
    from positions_row_icao [OF this] obtain h where
      h: "dict_get ac ''hex'' (JStr '''') = JStr h" "icao r = SText (str_upper h)" by blast
    show "\<not> dict_has ac ''hex'' \<longrightarrow> icao r = SText ''''"
      using h by (auto simp: dict_has_def dict_get_def str_upper_def)
  qed
  show ?thesis
    using new(1) a b by (intro exI [of _ new]) simp
next
  case False
  from save_aircraft_fail [OF False, of clock s] show ?thesis
    using False by (intro exI [of _ "[]"]) auto
qed

theorem stored_icao_text_possibly_empty_witness:
  "\<exists>r1 r2. positions (snd (save_aircraft sample_clock boot_state sample_batch)) = [r1, r2]
     \<and> (\<exists>t. icao r1 = SText t) \<and> icao r2 = SText ''''"
proof -
  from stored_icao_text_possibly_empty [of sample_clock boot_state sample_batch]
  obtain new where new:
    "positions (snd (save_aircraft sample_clock boot_state sample_batch))
       = positions boot_state @ new"
    "\<forall>r\<in>set new. \<exists>t. icao r = SText t"
    "list_all2 (\<lambda>ac r. \<not> dict_has ac ''hex'' \<longrightarrow> icao r = SText '''')
       (filter has_position sample_batch) new"
    using sample_batch_ingestible by blast
  from new(3) obtain r1 r2 where r: "new = [r1, r2]" "icao r2 = SText ''''"
    by (auto simp: sample_batch_positioned list_all2_Cons1 dict_has_def)
  with new(1,2) show ?thesis by (auto simp: boot_state_def)
qed

section \<open>Trace of one aircraft\<close>

lemma upper_char_idem: "upper_char (upper_char c) = upper_char c"
  by (auto simp: upper_char_def Let_def)

lemma str_upper_idem: "str_upper (str_upper t) = str_upper t"
  by (simp add: str_upper_def upper_char_idem)

lemma save_aircraft_keeps_uppercased:
  assumes "icao_uppercased s"
  shows "icao_uppercased (snd (save_aircraft clock s aircraft_list))"
proof (cases "\<forall>ac\<in>set aircraft_list. has_position ac \<longrightarrow> ingestible ac")
  case True
  from save_aircraft_ok [OF True, of clock s] obtain new where new:
    "save_aircraft clock s aircraft_list =
       (Inr (length new),
        s\<lparr>positions := positions s @ new, next_id := next_id s + length new,
          total_logged := total_logged s + length new\<rparr>)"
    "list_all2 (\<lambda>ac r. positions_row (rowid r) (clock (rowid r)) ac = Inr r)
       (filter has_position aircraft_list) new"
    by blast
  have "\<exists>t. icao r = SText (str_upper t)" if "r \<in> set new" for r
  proof -
    from list_all2_set2 [OF new(2) that] obtain ac where
      "positions_row (rowid r) (clock (rowid r)) ac = Inr r" by blast
    from positions_row_icao [OF this] show ?thesis by blast
  qed
  with assms new(1) show ?thesis by (auto simp: icao_uppercased_def)
next
  case False
  from save_aircraft_fail [OF False, of clock s] assms show ?thesis by auto
qed

lemma cleanup_keeps_uppercased:
  assumes "icao_uppercased s"
  shows "icao_uppercased (snd (cleanup_old_records now s))"
  using assms
  by (auto simp: icao_uppercased_def cleanup_old_records_def Let_def commit_def get_db_def
      execute_delete_def execute_vacuum_def split: sum.splits if_splits)

lemma logged_state_uppercased: "icao_uppercased logged_state"
  unfolding logged_state_def
  by (rule save_aircraft_keeps_uppercased) (simp add: icao_uppercased_def boot_state_def)

lemma matches_iff:
  assumes "icao_uppercased s" "r \<in> set (positions s)"
  shows "(icao r = SText (str_upper q)) = icao_matches q r"
proof
  assume "icao r = SText (str_upper q)"
  then show "icao_matches q r" by (simp add: icao_matches_def str_upper_idem)
next
  assume "icao_matches q r"
  then obtain u where u: "icao r = SText u" "str_upper u = str_upper q"
    by (auto simp: icao_matches_def)
  from assms obtain t where "icao r = SText (str_upper t)"
    by (auto simp: icao_uppercased_def)
  with u(1) have "u = str_upper t" by simp
  then have "str_upper u = u" by (simp add: str_upper_idem)
  with u show "icao r = SText (str_upper q)" by simp
qed

lemma lower_bound_iff:
  "bound_ok st (timestamp_ge ts)
     = (case st of None \<Rightarrow> True | Some x \<Rightarrow> x = [] \<or> numeric_looking x \<or> x \<le> ts)"
  by (auto simp: bound_ok_def timestamp_ge_def split: option.splits)

lemma upper_bound_iff:
  "bound_ok en (timestamp_le ts)
     = (case en of None \<Rightarrow> True | Some y \<Rightarrow> y = [] \<or> (\<not> numeric_looking y \<and> ts \<le> y))"
  by (auto simp: bound_ok_def timestamp_le_def split: option.splits)

lemma trace_rows_eq:
  assumes "icao_uppercased s"
  shows "trace_rows s q st en =
     sort_key timestamp
       (filter (\<lambda>r. icao_matches q r
                  \<and> (case st of None \<Rightarrow> True
                      | Some x \<Rightarrow> x = [] \<or> numeric_looking x \<or> x \<le> timestamp r)
                  \<and> (case en of None \<Rightarrow> True
                      | Some y \<Rightarrow> y = [] \<or> (\<not> numeric_looking y \<and> timestamp r \<le> y)))
               (positions s))"
  unfolding trace_rows_def lower_bound_iff upper_bound_iff
  by (rule arg_cong [where f = "sort_key timestamp"], rule filter_cong)
     (auto simp: matches_iff [OF assms])

lemma sample_icao_upper:
  "str_upper ''abc123'' = ''ABC123''" "str_upper ''ABC123'' = ''ABC123''"
  "str_upper ''Abc123'' = ''ABC123''" "str_upper ''DEF456'' = ''DEF456''"
  by code_simp+

lemma sample_bounds_numeric:
  "numeric_looking ''2025''" "numeric_looking '' 2025 ''" "numeric_looking ''-20.25e+2''"
  "\<not> numeric_looking ''2024-03-05 12:00:05''" "\<not> numeric_looking ''2024-03-05 12:00:20''"
  "\<not> numeric_looking ''0x7E9''" "\<not> numeric_looking ''2025e''"
  by code_simp+

lemma trace_state_uppercased: "icao_uppercased trace_state"
proof -
  have "\<exists>t. SText ''ABC123'' = SText (str_upper t)" "\<exists>t. SText ''DEF456'' = SText (str_upper t)"
    using sample_icao_upper(2,4) by metis+
  then show ?thesis
    by (simp add: icao_uppercased_def trace_state_def snapshot_def)
qed

text \<open>
  Claim C7, as stated: the trace of an icao is the same whatever the letter case of the
  argument, and holds every snapshot of that icao in ascending timestamp order, bounded
  by the inclusive \<open>start\<close> and \<open>end\<close> where given. The bounds are not always bounds. The
  column \<^verbatim>\<open>timestamp\<close> has NUMERIC affinity, so a bound that reads as a number, such as
  \<open>2025\<close>, is compared as a number, and a number sorts below every stored timestamp
  text. With \<open>start = 2025\<close> the trace of \<open>abc123\<close> in the sample table holds all three
  snapshots of March 2024, which lie before that bound; with \<open>end = 2025\<close> it is empty,
  although all three lie before that bound.
\<close>

theorem numeric_bound_counterexample:
  "map (\<lambda>p. dict_get (case p of JObj kvs \<Rightarrow> kvs | _ \<Rightarrow> []) ''timestamp'' JNull)
     (case response_field (api_trace trace_state ''abc123'' (Some ''2025'') None) ''trace'' of
        JArr ps \<Rightarrow> ps | _ \<Rightarrow> [])
     = [JStr ''2024-03-05 12:00:00'', JStr ''2024-03-05 12:00:10'', JStr ''2024-03-05 12:00:20'']
   \<and> ''2024-03-05 12:00:20'' < ''2025''
   \<and> api_trace trace_state ''abc123'' None (Some ''2025'')
       = (200, JObj [(''icao'', JStr ''ABC123''), (''positions'', JInt 0), (''trace'', JArr [])])
   \<and> response_field (api_trace trace_state ''abc123'' None None) ''positions'' = JInt 3"
  by (simp add: api_trace_def trace_rows_def trace_point_def bound_ok_def timestamp_ge_def
      timestamp_le_def trace_state_def snapshot_def boot_state_def response_field_def
      dict_get_def sample_icao_upper sample_bounds_numeric)

text \<open>
  Claim C7, amended. On every table that \<^verbatim>\<open>save_aircraft\<close> has filled (all stored icao
  uppercased), the trace query gives the same answer for two icao arguments that differ
  only in the case of their ASCII letters, in particular for \<open>abc123\<close> and \<open>ABC123\<close>. It
  answers with the uppercased icao, the number of points, and one point (timestamp, lat,
  lon, altitude, speed and track as stored) for each stored snapshot whose icao equals
  the argument up to case and whose timestamp passes the bounds, in ascending timestamp
  order. A bound that is absent or empty excludes nothing. A bound that does not read as
  a number is compared with the stored timestamp as text, inclusively. A bound that
  reads as a number excludes nothing as \<open>start\<close> and excludes every snapshot as \<open>end\<close>.
\<close>

theorem trace_case_insensitive:
  assumes "icao_uppercased s"
  shows "(str_upper a = str_upper b \<longrightarrow> api_trace s a st en = api_trace s b st en)
       \<and> api_trace s ''abc123'' st en = api_trace s ''ABC123'' st en
       \<and> (let rows =
                sort_key timestamp
                  (filter (\<lambda>r. icao_matches a r
                             \<and> (case st of None \<Rightarrow> True
                                 | Some x \<Rightarrow> x = [] \<or> numeric_looking x \<or> x \<le> timestamp r)
                             \<and> (case en of None \<Rightarrow> True
                                 | Some y \<Rightarrow> y = [] \<or> (\<not> numeric_looking y \<and> timestamp r \<le> y)))
                          (positions s))
          in api_trace s a st en =
               (200, JObj [(''icao'', JStr (str_upper a)),
                           (''positions'', JInt (int (length rows))),
                           (''trace'',
                            JArr (map (\<lambda>r. JObj [(''timestamp'', JStr (timestamp r)),
                                                  (''lat'', from_sql (lat r)),
                                                  (''lon'', from_sql (lon r)),
                                                  (''altitude'', from_sql (altitude r)),
                                                  (''speed'', from_sql (speed r)),
                                                  (''track'', from_sql (track r))])
                                      rows))])
             \<and> sorted (map timestamp rows))"
proof -
  have 1: "api_trace s a st en = api_trace s b st en" if "str_upper a = str_upper b"
    using that by (simp add: api_trace_def trace_rows_def)
  have 2: "api_trace s ''abc123'' st en = api_trace s ''ABC123'' st en"
    by (simp only: api_trace_def trace_rows_def sample_icao_upper)
  have 3: "api_trace s a st en =
           (200, JObj [(''icao'', JStr (str_upper a)),
                       (''positions'', JInt (int (length (trace_rows s a st en)))),
                       (''trace'',
                        JArr (map (\<lambda>r. JObj [(''timestamp'', JStr (timestamp r)),
                                              (''lat'', from_sql (lat r)),
                                              (''lon'', from_sql (lon r)),
                                              (''altitude'', from_sql (altitude r)),
                                              (''speed'', from_sql (speed r)),
                                              (''track'', from_sql (track r))])
                                  (trace_rows s a st en)))])"
    by (simp add: api_trace_def Let_def trace_point_def [abs_def])
  have 4: "sorted (map timestamp (trace_rows s a st en))"
    by (simp add: trace_rows_def)
  show ?thesis
    using 1 2 3 4 unfolding trace_rows_eq [OF assms] Let_def by blast
qed

theorem trace_case_insensitive_witness:
  "api_trace trace_state ''abc123'' (Some ''2024-03-05 12:00:05'') (Some ''2024-03-05 12:00:20'')
     = (200, JObj [(''icao'', JStr ''ABC123''), (''positions'', JInt 2),
                   (''trace'',
                    JArr [JObj [(''timestamp'', JStr ''2024-03-05 12:00:10''),
                                (''lat'', JFloat 51.625), (''lon'', JFloat (- 0.12)),
                                (''altitude'', JInt 35050), (''speed'', JFloat 431.5),
                                (''track'', JInt 270)],
                          JObj [(''timestamp'', JStr ''2024-03-05 12:00:20''),
                                (''lat'', JFloat 51.75), (''lon'', JFloat (- 0.12)),
                                (''altitude'', JInt 35100), (''speed'', JFloat 431.5),
                                (''track'', JInt 270)]])])
   \<and> api_trace trace_state ''ABC123'' (Some ''2024-03-05 12:00:05'') (Some ''2024-03-05 12:00:20'')
     = api_trace trace_state ''abc123'' (Some ''2024-03-05 12:00:05'') (Some ''2024-03-05 12:00:20'')
   \<and> response_field (api_trace trace_state ''Abc123'' (Some '' 2025 '') (Some '''')) ''positions''
     = JInt 3"
proof -
  note t = trace_case_insensitive [OF trace_state_uppercased]
  note ev = Let_def trace_state_def snapshot_def boot_state_def icao_matches_def
    response_field_def dict_get_def sample_icao_upper sample_bounds_numeric
  have 1: "api_trace trace_state ''abc123''
             (Some ''2024-03-05 12:00:05'') (Some ''2024-03-05 12:00:20'')
     = (200, JObj [(''icao'', JStr ''ABC123''), (''positions'', JInt 2),
                   (''trace'',
                    JArr [JObj [(''timestamp'', JStr ''2024-03-05 12:00:10''),
                                (''lat'', JFloat 51.625), (''lon'', JFloat (- 0.12)),
                                (''altitude'', JInt 35050), (''speed'', JFloat 431.5),
                                (''track'', JInt 270)],
                          JObj [(''timestamp'', JStr ''2024-03-05 12:00:20''),
                                (''lat'', JFloat 51.75), (''lon'', JFloat (- 0.12)),
                                (''altitude'', JInt 35100), (''speed'', JFloat 431.5),
                                (''track'', JInt 270)]])])"
    using t [where a = "''abc123''" and st = "Some ''2024-03-05 12:00:05''"
               and en = "Some ''2024-03-05 12:00:20''", THEN conjunct2, THEN conjunct2]
    by (simp add: ev)
  have 2: "api_trace trace_state ''ABC123''
             (Some ''2024-03-05 12:00:05'') (Some ''2024-03-05 12:00:20'')
     = api_trace trace_state ''abc123''
         (Some ''2024-03-05 12:00:05'') (Some ''2024-03-05 12:00:20'')"
    using t [where st = "Some ''2024-03-05 12:00:05''" and en = "Some ''2024-03-05 12:00:20''",
             THEN conjunct2, THEN conjunct1]
    by simp
  have 3: "response_field (api_trace trace_state ''Abc123'' (Some '' 2025 '') (Some ''''))
             ''positions'' = JInt 3"
    using t [where a = "''Abc123''" and st = "Some '' 2025 ''" and en = "Some ''''",
             THEN conjunct2, THEN conjunct2]
    by (simp add: ev)
  from 1 2 3 show ?thesis by (simp only: simp_thms)
qed

section \<open>Retention sweep\<close>




lemma digit_char_lits:
  "digit_char 0 = CHR ''0''" "digit_char 1 = CHR ''1''" "digit_char 2 = CHR ''2''"
  "digit_char 3 = CHR ''3''" "digit_char 4 = CHR ''4''" "digit_char 5 = CHR ''5''"
  "digit_char 6 = CHR ''6''" "digit_char 7 = CHR ''7''" "digit_char 8 = CHR ''8''"
  "digit_char 9 = CHR ''9''" "digit_char (Suc 0) = CHR ''1''"
  by code_simp+

lemma zero_pad_2: "zero_pad 2 n = [digit_char (n div 10 mod 10), digit_char (n mod 10)]"
proof -
  have "zero_pad (Suc (Suc 0)) n = [digit_char (n div 10 mod 10), digit_char (n mod 10)]"
    by simp
  moreover have "Suc (Suc 0) = 2" by simp
  ultimately show ?thesis by simp
qed

lemma zero_pad_4:
  "zero_pad 4 n = [digit_char (n div 10 div 10 div 10 mod 10), digit_char (n div 10 div 10 mod 10),
                   digit_char (n div 10 mod 10), digit_char (n mod 10)]"
proof -
  have "zero_pad (Suc (Suc (Suc (Suc 0)))) n =
          [digit_char (n div 10 div 10 div 10 mod 10), digit_char (n div 10 div 10 mod 10),
           digit_char (n div 10 mod 10), digit_char (n mod 10)]"
    by simp
  moreover have "Suc (Suc (Suc (Suc 0))) = 4" by simp
  ultimately show ?thesis by simp
qed

lemma zero_pad_6:
  "zero_pad 6 n =
     [digit_char (n div 10 div 10 div 10 div 10 div 10 mod 10),
      digit_char (n div 10 div 10 div 10 div 10 mod 10),
      digit_char (n div 10 div 10 div 10 mod 10), digit_char (n div 10 div 10 mod 10),
      digit_char (n div 10 mod 10), digit_char (n mod 10)]"
proof -
  have "zero_pad (Suc (Suc (Suc (Suc (Suc (Suc 0)))))) n =
     [digit_char (n div 10 div 10 div 10 div 10 div 10 mod 10),
      digit_char (n div 10 div 10 div 10 div 10 mod 10),
      digit_char (n div 10 div 10 div 10 mod 10), digit_char (n div 10 div 10 mod 10),
      digit_char (n div 10 mod 10), digit_char (n mod 10)]"
    by simp
  moreover have "Suc (Suc (Suc (Suc (Suc (Suc 0))))) = 6" by simp
  ultimately show ?thesis by simp
qed

lemmas isoformat_eval = isoformat_def zero_pad_2 zero_pad_4 zero_pad_6 digit_char_lits

























section \<open>Recent aircraft\<close>

lemma afternoon_hour_ago:
  "dt_minus afternoon_now 0 3600 = Inr (afternoon_now\<lparr>hour := 12\<rparr>)"
  by (simp add: dt_minus_def Let_def ymd2ord_def ord2ymd_def days_before_year_def
      days_before_month_def DAYS_BEFORE_MONTH_def DAYS_IN_MONTH_def is_leap_def
      afternoon_now_def)

lemma afternoon_hour_ago_text:
  "isoformat (CHR ''T'') (afternoon_now\<lparr>hour := 12\<rparr>) = ''2024-03-05T12:00:00.250000''"
  by (simp add: isoformat_eval afternoon_now_def)

lemma night_hour_ago:
  "dt_minus night_now 0 3600 = Inr (night_now\<lparr>day := 5, hour := 23\<rparr>)"
  by (simp add: dt_minus_def Let_def ymd2ord_def ord2ymd_def days_before_year_def
      days_before_month_def DAYS_BEFORE_MONTH_def DAYS_IN_MONTH_def is_leap_def
      night_now_def)

lemma night_hour_ago_text:
  "isoformat (CHR ''T'') (night_now\<lparr>day := 5, hour := 23\<rparr>) = ''2024-03-05T23:30:00''"
  by (simp add: isoformat_eval night_now_def)

lemma recent_bounds_not_numeric:
  "\<not> numeric_looking ''2024-03-05T12:00:00.250000''"
  "\<not> numeric_looking ''2024-03-05T23:30:00''"
  by code_simp+

text \<open>
  Claim C2 says that the recent query returns, for every icao with a snapshot in the
  trailing hour, that icao's latest position, its latest timestamp and its count. The
  source computes the start of the window as \<^verbatim>\<open>(datetime.now() - timedelta(hours=1)).isoformat()\<close>,
  which separates date and time with \<open>T\<close>, while the stored timestamps separate them
  with a space. Compared as text, a stored timestamp of the same date is below the start
  of the window whatever its time, because a space sorts before \<open>T\<close>. At one in the
  afternoon, with three snapshots of the last half hour in the table, the query returns
  nothing. Half an hour after midnight it returns the aircraft seen since midnight and
  misses the one seen at a quarter to midnight; and for the aircraft it returns, lat, lon
  and altitude are the maxima over the window (\<^verbatim>\<open>MAX(lat)\<close>, \<^verbatim>\<open>MAX(lon)\<close>,
  \<^verbatim>\<open>MAX(altitude)\<close>), here 51.75 and 35100 of the earlier snapshot, not 51.5 and 35000 of
  the latest one.
\<close>

theorem recent_misses_same_day_snapshots:
  "api_recent bare afternoon_now afternoon_state = Inr (200, JArr [])
   \<and> (case api_recent bare night_now night_state of
         Inr (status, JArr js) \<Rightarrow>
           map (\<lambda>j. map (json_field j)
                        [''icao'', ''lat'', ''lon'', ''altitude'', ''last_seen'', ''positions''])
               js
       | _ \<Rightarrow> [])
       = [[JStr ''ABC123'', JFloat 51.75, JFloat (- 0.12), JInt 35100,
           JStr ''2024-03-06 00:20:00'', JInt 2]]"
proof -
  have 1: "api_recent bare afternoon_now afternoon_state = Inr (200, JArr [])"
    by (simp add: api_recent_def and_then_def afternoon_hour_ago afternoon_hour_ago_text
        recent_rows_def timestamp_ge_def recent_bounds_not_numeric afternoon_state_def
        snapshot_def boot_state_def)
  have 2: "api_recent bare night_now night_state =
             Inr (200, JArr [aircraft_json
                   \<lparr>agg_icao = SText ''ABC123'',
                    agg_callsign =
                      callsign (bare [snapshot 2 ''2024-03-06 00:10:00'' ''ABC123'' 51.75 35100,
                                      snapshot 3 ''2024-03-06 00:20:00'' ''ABC123'' 51.5 35000]),
                    agg_lat = SReal 51.75, agg_lon = SReal (- 0.12), agg_altitude = SInt 35100,
                    last_seen = ''2024-03-06 00:20:00'', agg_positions = Suc (Suc 0)\<rparr>])"
    by (simp add: api_recent_def and_then_def night_hour_ago night_hour_ago_text
        recent_rows_def timestamp_ge_def recent_bounds_not_numeric night_state_def
        snapshot_def boot_state_def aggregate_def sql_max_def Let_def)
  show ?thesis
    by (simp add: 1 2 aircraft_json_def json_field_def dict_get_def)
qed

theorem recent_misses_same_day_snapshots_witness:
  "api_recent hd afternoon_now afternoon_state = Inr (200, JArr [])"
  using recent_misses_same_day_snapshots [of hd] by simp

end
